theory Spec2Isabelle
  imports Main "HOL-Library.AList"
begin

section \<open>The security manager of \<^verbatim>\<open>src/security_manager.py\<close>\<close>

text \<open>
  The class \<^verbatim>\<open>SecurityManagerAI\<close> keeps two pieces of mutable state, the dictionary
  \<^verbatim>\<open>active_sessions\<close> and the list \<^verbatim>\<open>access_logs\<close>, beside four configuration
  fields that are written once by the constructor. Every method is modelled as a function
  that takes the manager and returns its result together with the manager it leaves behind.

  What a method reads from outside is an argument of its model, one argument for each read
  and in the order of the reads: every call of \<^verbatim>\<open>datetime.now()\<close> is a clock reading
  of its own (the argument is named after the source line of the call), and the bytes that
  the random source of the system hands to \<^verbatim>\<open>secrets.token_urlsafe\<close> are the argument
  \<open>urandom\<close>, byte \<open>i\<close> being \<open>urandom i mod 256\<close>.

  The calls of \<^verbatim>\<open>logging\<close> write to the log of the process and touch nothing of the
  manager; they have no counterpart here.
\<close>

subsection \<open>Dates and durations\<close>

text \<open>
  A \<^verbatim>\<open>datetime\<close> is the number of microseconds, the resolution of the clock, since
  \<^verbatim>\<open>datetime.min\<close>, which is the first instant of the year 1; the last one,
  \<^verbatim>\<open>datetime.max\<close>, is the last microsecond of the year 9999, 3652059 days later.
  \<^verbatim>\<open>.isoformat()\<close> renders a \<^verbatim>\<open>datetime\<close> as text without loss, so a time stamp of
  a result is kept as the time itself.
\<close>

type_synonym time = int

definition datetime_max :: time where
  "datetime_max = 3652059 * 86400 * 1000000 - 1"

text \<open>
  Both operations of line 98 raise \<^verbatim>\<open>OverflowError\<close>: \<^verbatim>\<open>timedelta(seconds=n)\<close> when
  the duration has more than 999999999 days in either direction (the days are the seconds
  divided by 86400, rounded down), and the sum of a \<^verbatim>\<open>datetime\<close> and a duration when it
  falls outside the years 1 to 9999. A duration is a number of microseconds.
\<close>

datatype error = OverflowError

definition timedelta_seconds :: "int \<Rightarrow> error + int" where
  "timedelta_seconds n =
     (if - 999999999 \<le> n div 86400 \<and> n div 86400 \<le> 999999999
      then Inr (n * 1000000) else Inl OverflowError)"

definition datetime_add :: "time \<Rightarrow> int \<Rightarrow> error + time" where
  "datetime_add t d =
     (if 0 \<le> t + d \<and> t + d \<le> datetime_max then Inr (t + d) else Inl OverflowError)"

subsection \<open>Data\<close>

text \<open>The value stored under a token in \<^verbatim>\<open>active_sessions\<close> (lines 95 to 100).\<close>

record session =
  username :: string
  created_at :: time
  expires_at :: time
  access_level :: string

text \<open>
  The dictionary \<^verbatim>\<open>auth_result\<close> of \<^verbatim>\<open>authenticate_user\<close>. Its keys
  \<^verbatim>\<open>username\<close>, \<^verbatim>\<open>access_level\<close> and \<^verbatim>\<open>timestamp\<close> carry the prefix
  \<open>auth_\<close> here, \<^verbatim>\<open>2fa_verified\<close> is \<open>twofa_verified\<close>. A Python \<^verbatim>\<open>None\<close> is
  \<open>None\<close>; the keys \<^verbatim>\<open>requires_2fa\<close> and \<^verbatim>\<open>2fa_verified\<close> exist only on some
  paths, and an absent key is \<open>None\<close> as well.
\<close>

record auth_result =
  auth_username :: string
  authenticated :: bool
  session_token :: "string option"
  auth_access_level :: "string option"
  auth_timestamp :: time
  requires_2fa :: "bool option"
  twofa_verified :: "bool option"

text \<open>
  The dictionary \<^verbatim>\<open>result\<close> of \<^verbatim>\<open>secure_online_access\<close>; the keys
  \<^verbatim>\<open>access_level\<close> and \<^verbatim>\<open>username\<close>, present only when access is granted, carry
  the prefix \<open>acc_\<close>.
\<close>

record access_result =
  resource :: string
  access_granted :: bool
  reason :: "string option"
  timestamp :: time
  acc_access_level :: "string option"
  acc_username :: "string option"

text \<open>
  An element of \<^verbatim>\<open>access_logs\<close>: the logged dictionary, which is one of the two
  results above, extended by the key \<^verbatim>\<open>logged_at\<close> (lines 182 to 185).
\<close>

datatype attempt = AuthAttempt auth_result | AccessAttempt access_result

record log_entry =
  attempt :: attempt
  logged_at :: time

text \<open>
  The configuration. The constructor reads the key \<^verbatim>\<open>security_manager\<close> of the
  dictionary it is given and four keys of the dictionary found there; each of them may be
  absent, which is \<open>None\<close>. A value that is present has the type the program uses it at.
\<close>

record manager_config =
  cfg_enable_2fa :: "bool option"
  cfg_session_timeout :: "int option"
  cfg_encryption_enabled :: "bool option"
  cfg_access_levels :: "string list option"

record config =
  security_manager :: "manager_config option"

text \<open>
  The object itself. A dictionary is an association list in insertion order, with
  \<open>map_of\<close> for \<^verbatim>\<open>.get\<close>, \<open>AList.update\<close> for an assignment to a key and
  \<open>AList.delete\<close> for \<^verbatim>\<open>del\<close>.
\<close>

record manager =
  mgr_config :: manager_config
  enable_2fa :: bool
  session_timeout :: int
  encryption_enabled :: bool
  access_levels :: "string list"
  active_sessions :: "(string \<times> session) list"
  access_logs :: "log_entry list"

subsection \<open>The constructor (lines 24 to 35)\<close>

text \<open>\<^verbatim>\<open>d.get(key, default)\<close> on an optional entry.\<close>

definition get_default :: "'a option \<Rightarrow> 'a \<Rightarrow> 'a" where
  "get_default entry dflt = (case entry of None \<Rightarrow> dflt | Some v \<Rightarrow> v)"

definition empty_section :: manager_config where
  "empty_section =
     \<lparr>cfg_enable_2fa = None, cfg_session_timeout = None,
      cfg_encryption_enabled = None, cfg_access_levels = None\<rparr>"

text \<open>
  The constructor has no \<^verbatim>\<open>raise\<close> and no check of what it reads, so the model is a
  total function into managers.
\<close>

definition init :: "config \<Rightarrow> manager" where
  "init cfg =
     (let sec = get_default (security_manager cfg) empty_section in
      \<lparr>mgr_config = sec,
       enable_2fa = get_default (cfg_enable_2fa sec) True,
       session_timeout = get_default (cfg_session_timeout sec) 3600,
       encryption_enabled = get_default (cfg_encryption_enabled sec) True,
       access_levels = get_default (cfg_access_levels sec) [''admin'', ''user'', ''guest''],
       active_sessions = [],
       access_logs = []\<rparr>)"

subsection \<open>The audit log (lines 180 to 185)\<close>

definition log_access_attempt :: "attempt \<Rightarrow> time \<Rightarrow> manager \<Rightarrow> manager" where
  "log_access_attempt a now184 m =
     m\<lparr>access_logs := access_logs m @ [\<lparr>attempt = a, logged_at = now184\<rparr>]\<rparr>"

subsection \<open>Session tokens (lines 37 to 39)\<close>

text \<open>
  \<^verbatim>\<open>secrets.token_urlsafe(n)\<close> reads \<open>n\<close> bytes from the random source, encodes them
  in base 64 with the alphabet that is safe in a URL, three bytes to four characters with
  \<^verbatim>\<open>=\<close> as padding of the last group, and strips the padding from the right end.
\<close>

definition b64_alphabet :: string where
  "b64_alphabet = ''ABCDEFGHIJKLMNOPQRSTUVWXYZabcdefghijklmnopqrstuvwxyz0123456789-_''"

definition b64_char :: "nat \<Rightarrow> char" where
  "b64_char i = b64_alphabet ! (i mod 64)"

fun urlsafe_b64encode :: "nat list \<Rightarrow> string" where
  "urlsafe_b64encode [] = []"
| "urlsafe_b64encode [a] =
     [b64_char (a div 4), b64_char ((a mod 4) * 16), CHR ''='', CHR ''='']"
| "urlsafe_b64encode [a, b] =
     [b64_char (a div 4), b64_char ((a mod 4) * 16 + b div 16),
      b64_char ((b mod 16) * 4), CHR ''='']"
| "urlsafe_b64encode (a # b # c # bs) =
     [b64_char (a div 4), b64_char ((a mod 4) * 16 + b div 16),
      b64_char ((b mod 16) * 4 + c div 64), b64_char (c mod 64)] @ urlsafe_b64encode bs"

definition rstrip :: "char \<Rightarrow> string \<Rightarrow> string" where
  "rstrip c s = rev (dropWhile (\<lambda>x. x = c) (rev s))"

definition token_bytes :: "(nat \<Rightarrow> nat) \<Rightarrow> nat \<Rightarrow> nat list" where
  "token_bytes urandom n = map (\<lambda>i. urandom i mod 256) [0..<n]"

definition token_urlsafe :: "(nat \<Rightarrow> nat) \<Rightarrow> nat \<Rightarrow> string" where
  "token_urlsafe urandom nbytes =
     rstrip CHR ''='' (urlsafe_b64encode (token_bytes urandom nbytes))"

definition generate_session_token :: "(nat \<Rightarrow> nat) \<Rightarrow> string" where
  "generate_session_token urandom = token_urlsafe urandom 32"

subsection \<open>Authentication (lines 49 to 105)\<close>

text \<open>
  The right-hand side of line 98, \<^verbatim>\<open>datetime.now() + timedelta(seconds=self.session_timeout)\<close>:
  the clock is read, the duration is built, the two are added.
\<close>

definition session_expiry :: "manager \<Rightarrow> time \<Rightarrow> error + time" where
  "session_expiry m now98 =
     (case timedelta_seconds (session_timeout m) of
        Inl e \<Rightarrow> Inl e
      | Inr d \<Rightarrow> datetime_add now98 d)"

text \<open>The dictionary that line 95 stores.\<close>

definition new_session :: "string \<Rightarrow> time \<Rightarrow> time \<Rightarrow> session" where
  "new_session user now97 expires =
     \<lparr>username = user, created_at = now97, expires_at = expires, access_level = ''user''\<rparr>"

text \<open>
  Line 73 hashes the password into a local variable that nothing reads afterwards; it has
  no part in the result and no counterpart here. The arguments \<open>now69\<close>, \<open>now97\<close>,
  \<open>now98\<close> and \<open>now184\<close> are the four clock readings, \<open>urandom\<close> is the random
  source that line 91 draws the token from. The first branch is the early \<^verbatim>\<open>return\<close>
  of line 84. An exception of line 98 leaves the method before line 95 has stored the
  session and before line 104 has written the log, so the manager of the caller is as it
  was: the call is \<open>Inl\<close> of the error.
\<close>

definition authenticate_user ::
  "manager \<Rightarrow> string \<Rightarrow> string \<Rightarrow> string option \<Rightarrow> time \<Rightarrow> (nat \<Rightarrow> nat) \<Rightarrow> time \<Rightarrow> time \<Rightarrow> time
     \<Rightarrow> error + auth_result \<times> manager" where
  "authenticate_user m user password two_fa_code now69 urandom now97 now98 now184 =
     (let r0 = \<lparr>auth_username = user, authenticated = False, session_token = None,
                auth_access_level = None, auth_timestamp = now69,
                requires_2fa = None, twofa_verified = None\<rparr>;
          r1 = r0\<lparr>authenticated := True\<rparr>
      in
        if enable_2fa m \<and> two_fa_code = None then
          Inr (r1\<lparr>requires_2fa := Some True, authenticated := False\<rparr>, m)
        else
          let r2 = (if enable_2fa m then r1\<lparr>twofa_verified := Some True\<rparr> else r1)
          in
            if authenticated r2 then
              let tok = generate_session_token urandom;
                  r3 = r2\<lparr>session_token := Some tok, auth_access_level := Some ''user''\<rparr>
              in
                case session_expiry m now98 of
                  Inl e \<Rightarrow> Inl e
                | Inr expires \<Rightarrow>
                    Inr (r3,
                         log_access_attempt (AuthAttempt r3) now184
                           (m\<lparr>active_sessions :=
                                AList.update tok (new_session user now97 expires)
                                  (active_sessions m)\<rparr>))
            else Inr (r2, log_access_attempt (AuthAttempt r2) now184 m))"

subsection \<open>Access to a resource (lines 107 to 148)\<close>

text \<open>
  A stored session is a dictionary of four keys and so never falsy: \<^verbatim>\<open>not session\<close>
  holds exactly when \<^verbatim>\<open>.get\<close> found nothing. The clock is read at line 122, at line
  134 when a session was found, and at line 184 when access is granted. The first two
  branches are the early returns of lines 131 and 138; the \<^verbatim>\<open>del\<close> of line 136
  removes a key that line 126 has just found.
\<close>

definition secure_online_access ::
  "manager \<Rightarrow> string \<Rightarrow> string \<Rightarrow> time \<Rightarrow> time \<Rightarrow> time \<Rightarrow> access_result \<times> manager" where
  "secure_online_access m tok res now122 now134 now184 =
     (let r0 = \<lparr>resource = res, access_granted = False, reason = None, timestamp = now122,
                acc_access_level = None, acc_username = None\<rparr>
      in
        case map_of (active_sessions m) tok of
          None \<Rightarrow> (r0\<lparr>reason := Some ''Invalid session token''\<rparr>, m)
        | Some s \<Rightarrow>
            if now134 > expires_at s then
              (r0\<lparr>reason := Some ''Session expired''\<rparr>,
               m\<lparr>active_sessions := AList.delete tok (active_sessions m)\<rparr>)
            else
              let r1 = r0\<lparr>access_granted := True,
                         acc_access_level := Some (access_level s),
                         acc_username := Some (username s)\<rparr>
              in (r1, log_access_attempt (AccessAttempt r1) now184 m))"

subsection \<open>Bulk marking of resources (lines 150 to 178)\<close>

record resource_security =
  rs_resource :: string
  status :: string
  encryption :: bool
  access_control :: bool

record secure_result =
  resources_secured :: nat
  sr_encryption_enabled :: bool
  sr_2fa_enabled :: bool
  sr_timestamp :: time
  resources :: "resource_security list"

text \<open>The loop of lines 168 to 176: one entry is appended for each name, in order.\<close>

fun secure_loop :: "manager \<Rightarrow> string list \<Rightarrow> resource_security list \<Rightarrow> resource_security list"
  where
  "secure_loop m [] acc = acc"
| "secure_loop m (r # rs) acc =
     secure_loop m rs
       (acc @ [\<lparr>rs_resource = r, status = ''secured'',
                encryption = encryption_enabled m, access_control = True\<rparr>])"

definition enable_secure_access ::
  "manager \<Rightarrow> string list \<Rightarrow> time \<Rightarrow> secure_result \<times> manager" where
  "enable_secure_access m rs now164 =
     (\<lparr>resources_secured = length rs,
       sr_encryption_enabled = encryption_enabled m,
       sr_2fa_enabled = enable_2fa m,
       sr_timestamp = now164,
       resources = secure_loop m rs []\<rparr>, m)"

subsection \<open>Status (lines 187 to 195)\<close>

record security_status =
  st_active_sessions :: nat
  total_access_logs :: nat
  st_2fa_enabled :: bool
  st_encryption_enabled :: bool
  st_session_timeout :: int

definition get_security_status :: "manager \<Rightarrow> security_status \<times> manager" where
  "get_security_status m =
     (\<lparr>st_active_sessions = length (active_sessions m),
       total_access_logs = length (access_logs m),
       st_2fa_enabled = enable_2fa m,
       st_encryption_enabled = encryption_enabled m,
       st_session_timeout = session_timeout m\<rparr>, m)"

subsection \<open>Sweep of expired sessions (lines 197 to 209)\<close>

text \<open>
  The comprehension of lines 200 to 203 collects the tokens whose session the one clock
  reading of line 199 is past; the loop of lines 205 to 207 deletes them one by one. Each
  of them is a key of the dictionary, so no \<^verbatim>\<open>del\<close> fails.
\<close>

definition expired :: "time \<Rightarrow> string \<times> session \<Rightarrow> bool" where
  "expired current_time p = (current_time > expires_at (snd p))"

fun delete_loop :: "string list \<Rightarrow> (string \<times> session) list \<Rightarrow> (string \<times> session) list" where
  "delete_loop [] d = d"
| "delete_loop (t # ts) d = delete_loop ts (AList.delete t d)"

definition cleanup_expired_sessions :: "manager \<Rightarrow> time \<Rightarrow> nat \<times> manager" where
  "cleanup_expired_sessions m now199 =
     (let expired_tokens = map fst (filter (expired now199) (active_sessions m))
      in (length expired_tokens,
          m\<lparr>active_sessions := delete_loop expired_tokens (active_sessions m)\<rparr>))"

subsection \<open>Calls\<close>

text \<open>
  A call of one of the five public methods together with what it reads from outside, and
  the manager that the call leaves behind; a call that raises leaves the manager it found.
\<close>

datatype call =
    Authenticate string string "string option" time "nat \<Rightarrow> nat" time time time
  | Access string string time time time
  | EnableSecure "string list" time
  | Status
  | Cleanup time

fun exec :: "manager \<Rightarrow> call \<Rightarrow> manager" where
  "exec m (Authenticate user password code now69 urandom now97 now98 now184) =
     (case authenticate_user m user password code now69 urandom now97 now98 now184 of
        Inl e \<Rightarrow> m
      | Inr p \<Rightarrow> snd p)"
| "exec m (Access tok res now122 now134 now184) =
     snd (secure_online_access m tok res now122 now134 now184)"
| "exec m (EnableSecure rs now164) = snd (enable_secure_access m rs now164)"
| "exec m Status = snd (get_security_status m)"
| "exec m (Cleanup now199) = snd (cleanup_expired_sessions m now199)"

text \<open>The token under which a call stores a session at line 95, if it gets there.\<close>

fun issues :: "manager \<Rightarrow> call \<Rightarrow> string option" where
  "issues m (Authenticate user password code now69 urandom now97 now98 now184) =
     (if enable_2fa m \<and> code = None then None
      else case session_expiry m now98 of
             Inl e \<Rightarrow> None
           | Inr expires \<Rightarrow> Some (generate_session_token urandom))"
| "issues m (Access tok res now122 now134 now184) = None"
| "issues m (EnableSecure rs now164) = None"
| "issues m Status = None"
| "issues m (Cleanup now199) = None"

text \<open>The entry that the loop of \<^verbatim>\<open>enable_secure_access\<close> builds for one name.\<close>

definition resource_entry :: "manager \<Rightarrow> string \<Rightarrow> resource_security" where
  "resource_entry m r =
     \<lparr>rs_resource = r, status = ''secured'',
      encryption = encryption_enabled m, access_control = True\<rparr>"

subsection \<open>Example configurations and states\<close>

text \<open>
  An empty configuration file, one that sets a time-out of one second, one that switches
  the second factor off, and one whose time-out of \<open>10\<^sup>1\<^sup>2\<close> seconds is more than
  thirty thousand years.
\<close>

definition default_config :: config where
  "default_config = \<lparr>security_manager = None\<rparr>"

definition ttl_config :: config where
  "ttl_config =
     \<lparr>security_manager =
        Some \<lparr>cfg_enable_2fa = None, cfg_session_timeout = Some 1,
              cfg_encryption_enabled = None, cfg_access_levels = None\<rparr>\<rparr>"

definition no_2fa_config :: config where
  "no_2fa_config =
     \<lparr>security_manager =
        Some \<lparr>cfg_enable_2fa = Some False, cfg_session_timeout = None,
              cfg_encryption_enabled = None, cfg_access_levels = None\<rparr>\<rparr>"

definition far_config :: config where
  "far_config =
     \<lparr>security_manager =
        Some \<lparr>cfg_enable_2fa = None, cfg_session_timeout = Some 1000000000000,
              cfg_encryption_enabled = None, cfg_access_levels = None\<rparr>\<rparr>"

text \<open>
  Two random sources, one that yields the byte 0 throughout and one that yields the byte
  255 throughout, and the tokens drawn from them.
\<close>

definition zero_bytes :: "nat \<Rightarrow> nat" where
  "zero_bytes i = 0"

definition ff_bytes :: "nat \<Rightarrow> nat" where
  "ff_bytes i = 255"

definition alice_token :: string where
  "alice_token = generate_session_token zero_bytes"

definition bob_token :: string where
  "bob_token = generate_session_token ff_bytes"

text \<open>
  The manager of \<open>ttl_config\<close> after \<^verbatim>\<open>authenticate_user('alice', 'pw', '123456')\<close>
  has drawn its token from \<open>zero_bytes\<close>, every clock reading of the call being 0, and
  the session that the call stores.
\<close>

definition alice_logged_in :: manager where
  "alice_logged_in =
     exec (init ttl_config) (Authenticate ''alice'' ''pw'' (Some ''123456'') 0 zero_bytes 0 0 0)"

definition alice_session :: session where
  "alice_session =
     \<lparr>username = ''alice'', created_at = 0, expires_at = 1000000, access_level = ''user''\<rparr>"

text \<open>
  The same login when the clock moves by one microsecond between the reading of line 97
  and the reading of line 98, and the session it stores.
\<close>

definition alice_logged_in_tick :: manager where
  "alice_logged_in_tick =
     exec (init ttl_config) (Authenticate ''alice'' ''pw'' (Some ''123456'') 0 zero_bytes 0 1 1)"

definition alice_session_tick :: session where
  "alice_session_tick =
     \<lparr>username = ''alice'', created_at = 0, expires_at = 1000001, access_level = ''user''\<rparr>"

text \<open>
  \<open>alice_logged_in\<close> after \<^verbatim>\<open>authenticate_user('bob', 'pw2', '654321')\<close> has drawn its
  token from \<open>ff_bytes\<close> one and a half seconds later.
\<close>

definition bob_session :: session where
  "bob_session =
     \<lparr>username = ''bob'', created_at = 1500000, expires_at = 2500000, access_level = ''user''\<rparr>"

definition alice_and_bob :: manager where
  "alice_and_bob =
     exec alice_logged_in
       (Authenticate ''bob'' ''pw2'' (Some ''654321'') 1500000 ff_bytes 1500000 1500000 1500000)"

section \<open>Properties\<close>

subsection \<open>Tokens\<close>

text \<open>No character of the alphabet is the padding character.\<close>

lemma b64_char_not_pad: "b64_char i \<noteq> CHR ''=''"
proof -
  have "i mod 64 < length b64_alphabet" by (simp add: b64_alphabet_def)
  then have "b64_char i \<in> set b64_alphabet" unfolding b64_char_def by (rule nth_mem)
  moreover have "CHR ''='' \<notin> set b64_alphabet" by (simp add: b64_alphabet_def)
  ultimately show ?thesis by auto
qed

lemma length_urlsafe_b64encode: "length (urlsafe_b64encode bs) = 4 * ((length bs + 2) div 3)"
proof (induction bs rule: urlsafe_b64encode.induct)
  case (4 a b c bs)
  have "(length (a # b # c # bs) + 2) div 3 = Suc ((length bs + 2) div 3)" by simp
  with 4 show ?case by simp
qed simp_all

text \<open>
  When two bytes are left over at the end, as with 32 bytes, the encoding ends in one
  character of the alphabet and one padding character.
\<close>

lemma urlsafe_b64encode_tail:
  "length bs mod 3 = 2 \<Longrightarrow>
     \<exists>xs c. urlsafe_b64encode bs = xs @ [c, CHR ''=''] \<and> c \<noteq> CHR ''=''"
proof (induction bs rule: urlsafe_b64encode.induct)
  case 1
  then show ?case by simp
next
  case (2 a)
  then show ?case by simp
next
  case (3 a b)
  have "urlsafe_b64encode [a, b] =
      [b64_char (a div 4), b64_char ((a mod 4) * 16 + b div 16)]
        @ [b64_char ((b mod 16) * 4), CHR ''='']"
    by simp
  with b64_char_not_pad show ?case by blast
next
  case (4 a b c bs)
  then have "length bs mod 3 = 2" by simp
  with 4 obtain xs x where "urlsafe_b64encode bs = xs @ [x, CHR ''='']" "x \<noteq> CHR ''=''"
    by blast
  then have "urlsafe_b64encode (a # b # c # bs) =
      ([b64_char (a div 4), b64_char ((a mod 4) * 16 + b div 16),
        b64_char ((b mod 16) * 4 + c div 64), b64_char (c mod 64)] @ xs) @ [x, CHR ''='']"
    "x \<noteq> CHR ''=''"
    by simp_all
  then show ?case by blast
qed

text \<open>A session token has 43 characters, whatever the random source yields.\<close>

lemma length_generate_session_token: "length (generate_session_token urandom) = 43"
proof -
  let ?bs = "token_bytes urandom 32"
  have len: "length ?bs = 32" by (simp add: token_bytes_def)
  then have "length ?bs mod 3 = 2" by simp
  from urlsafe_b64encode_tail [OF this]
  obtain xs c where enc: "urlsafe_b64encode ?bs = xs @ [c, CHR ''='']" and c: "c \<noteq> CHR ''=''"
    by blast
  from length_urlsafe_b64encode [of ?bs] len have "length (urlsafe_b64encode ?bs) = 44" by simp
  with enc have xs: "length xs = 42" by simp
  from enc c have "rstrip CHR ''='' (urlsafe_b64encode ?bs) = xs @ [c]"
    by (simp add: rstrip_def)
  with xs show ?thesis by (simp add: generate_session_token_def token_urlsafe_def)
qed

lemma generate_session_token_nonempty: "generate_session_token urandom \<noteq> []"
  using length_generate_session_token [of urandom] by auto

lemma alice_token_value: "alice_token = ''AAAAAAAAAAAAAAAAAAAAAAAAAAAAAAAAAAAAAAAAAAA''"
  unfolding alice_token_def by code_simp

lemma bob_token_value: "bob_token = ''__________________________________________8''"
  unfolding bob_token_def by code_simp

lemma tokens_differ: "alice_token \<noteq> bob_token"
  by (simp add: alice_token_value bob_token_value)

subsection \<open>The expiry of line 98\<close>

text \<open>
  The expiry is computed whenever the time-out is not negative and the sum stays within
  the range of \<^verbatim>\<open>datetime\<close>; a time-out of an hour, a day or a year is far inside.
\<close>

lemma session_expiry_in_range:
  assumes "0 \<le> session_timeout m" and "0 \<le> now98"
      and "now98 + session_timeout m * 1000000 \<le> datetime_max"
  shows "session_expiry m now98 = Inr (now98 + session_timeout m * 1000000)"
proof -
  from assms have "session_timeout m * 1000000 \<le> datetime_max" by simp
  then have "session_timeout m \<le> 86400 * 999999999" by (simp add: datetime_max_def)
  with assms(1) have "- 999999999 \<le> session_timeout m div 86400"
    and "session_timeout m div 86400 \<le> 999999999"
    by simp_all
  with assms show ?thesis
    by (simp add: session_expiry_def timedelta_seconds_def datetime_add_def)
qed

lemma ttl_expiry: "session_expiry (init ttl_config) 0 = Inr 1000000"
  by (simp add: session_expiry_def timedelta_seconds_def datetime_add_def datetime_max_def
        ttl_config_def init_def get_default_def)

lemma far_expiry: "session_expiry (init far_config) 0 = Inl OverflowError"
  by (simp add: session_expiry_def timedelta_seconds_def datetime_add_def datetime_max_def
        far_config_def init_def get_default_def)

subsection \<open>The ways out of \<open>authenticate_user\<close>\<close>

lemma authenticate_user_2fa_required:
  assumes "enable_2fa m"
  shows "authenticate_user m user password None now69 urandom now97 now98 now184 =
           Inr (\<lparr>auth_username = user, authenticated = False, session_token = None,
                 auth_access_level = None, auth_timestamp = now69,
                 requires_2fa = Some True, twofa_verified = None\<rparr>, m)"
  using assms by (simp add: authenticate_user_def)

lemma authenticate_user_success:
  assumes "\<not> enable_2fa m \<or> code \<noteq> None"
      and "session_expiry m now98 = Inr expires"
  shows "authenticate_user m user password code now69 urandom now97 now98 now184 =
           (let r = \<lparr>auth_username = user, authenticated = True,
                      session_token = Some (generate_session_token urandom),
                      auth_access_level = Some ''user'', auth_timestamp = now69,
                      requires_2fa = None,
                      twofa_verified = (if enable_2fa m then Some True else None)\<rparr>
            in Inr (r, log_access_attempt (AuthAttempt r) now184
                         (m\<lparr>active_sessions :=
                              AList.update (generate_session_token urandom)
                                (new_session user now97 expires) (active_sessions m)\<rparr>)))"
proof (cases "enable_2fa m")
  case True
  with assms(1) have "code \<noteq> None" by simp
  with True assms(2) show ?thesis by (auto simp: authenticate_user_def Let_def)
next
  case False
  with assms(2) show ?thesis by (simp add: authenticate_user_def Let_def)
qed

lemma authenticate_user_overflow:
  assumes "\<not> enable_2fa m \<or> code \<noteq> None"
      and "session_expiry m now98 = Inl e"
  shows "authenticate_user m user password code now69 urandom now97 now98 now184 = Inl e"
proof (cases "enable_2fa m")
  case True
  with assms(1) have "code \<noteq> None" by simp
  with True assms(2) show ?thesis by (auto simp: authenticate_user_def Let_def)
next
  case False
  with assms(2) show ?thesis by (simp add: authenticate_user_def Let_def)
qed

text \<open>Past the second-factor gate, the call returns exactly when line 98 does not raise.\<close>

lemma authenticate_user_returns_iff:
  assumes "\<not> enable_2fa m \<or> code \<noteq> None"
  shows "(\<exists>p. authenticate_user m user password code now69 urandom now97 now98 now184 = Inr p)
     \<longleftrightarrow> (\<exists>expires. session_expiry m now98 = Inr expires)"
proof (cases "session_expiry m now98")
  case (Inl e)
  with authenticate_user_overflow [OF assms Inl] show ?thesis by simp
next
  case (Inr expires)
  with authenticate_user_success [OF assms Inr] show ?thesis by (simp add: Let_def)
qed

text \<open>The session store after a login, whichever way the call went.\<close>

lemma exec_authenticate_sessions:
  "active_sessions (exec m (Authenticate user password code now69 urandom now97 now98 now184)) =
     (if enable_2fa m \<and> code = None then active_sessions m
      else case session_expiry m now98 of
             Inl e \<Rightarrow> active_sessions m
           | Inr expires \<Rightarrow>
               AList.update (generate_session_token urandom) (new_session user now97 expires)
                 (active_sessions m))"
proof (cases "enable_2fa m \<and> code = None")
  case True
  then show ?thesis by (simp add: authenticate_user_2fa_required)
next
  case False
  then have go: "\<not> enable_2fa m \<or> code \<noteq> None" by simp
  show ?thesis
  proof (cases "session_expiry m now98")
    case (Inl e)
    from authenticate_user_overflow [OF go Inl] Inl False show ?thesis by auto
  next
    case (Inr expires)
    from authenticate_user_success [OF go Inr] Inr False show ?thesis
      by (auto simp: Let_def log_access_attempt_def)
  qed
qed

lemma exec_authenticate_timeout:
  "session_timeout (exec m (Authenticate user password code now69 urandom now97 now98 now184))
     = session_timeout m"
proof (cases "enable_2fa m \<and> code = None")
  case True
  then show ?thesis by (simp add: authenticate_user_2fa_required)
next
  case False
  then have go: "\<not> enable_2fa m \<or> code \<noteq> None" by simp
  show ?thesis
  proof (cases "session_expiry m now98")
    case (Inl e)
    from authenticate_user_overflow [OF go Inl] show ?thesis by simp
  next
    case (Inr expires)
    from authenticate_user_success [OF go Inr] show ?thesis
      by (simp add: Let_def log_access_attempt_def)
  qed
qed

text \<open>How many entries a call that returns adds to the audit log.\<close>

lemma authenticate_user_log_length:
  assumes "authenticate_user m user password code now69 urandom now97 now98 now184 = Inr (r, m')"
  shows "length (access_logs m')
     = length (access_logs m) + (if enable_2fa m \<and> code = None then 0 else 1)"
proof (cases "enable_2fa m \<and> code = None")
  case True
  with assms show ?thesis by (auto simp: authenticate_user_2fa_required)
next
  case False
  then have go: "\<not> enable_2fa m \<or> code \<noteq> None" by simp
  show ?thesis
  proof (cases "session_expiry m now98")
    case (Inl e)
    from authenticate_user_overflow [OF go Inl] assms show ?thesis by simp
  next
    case (Inr expires)
    from authenticate_user_success [OF go Inr] assms False show ?thesis
      by (auto simp: Let_def log_access_attempt_def)
  qed
qed

lemma secure_online_access_log_length:
  "length (access_logs (snd (secure_online_access m tok res now122 now134 now184)))
     = length (access_logs m) +
       (if access_granted (fst (secure_online_access m tok res now122 now134 now184))
        then 1 else 0)"
  by (simp add: secure_online_access_def log_access_attempt_def Let_def split: option.splits)

subsection \<open>The example states\<close>

lemma ttl_manager: "enable_2fa (init ttl_config)" "session_timeout (init ttl_config) = 1"
  "active_sessions (init ttl_config) = []" "access_logs (init ttl_config) = []"
  by (simp_all add: ttl_config_def init_def get_default_def)

lemma alice_login:
  "authenticate_user (init ttl_config) ''alice'' ''pw'' (Some ''123456'') 0 zero_bytes 0 0 0 =
     Inr (\<lparr>auth_username = ''alice'', authenticated = True, session_token = Some alice_token,
           auth_access_level = Some ''user'', auth_timestamp = 0,
           requires_2fa = None, twofa_verified = Some True\<rparr>, alice_logged_in)"
proof -
  have go: "\<not> enable_2fa (init ttl_config) \<or> Some ''123456'' \<noteq> None" by simp
  from authenticate_user_success [OF go ttl_expiry] show ?thesis
    by (simp add: alice_logged_in_def alice_token_def Let_def ttl_manager)
qed

lemma alice_sessions: "active_sessions alice_logged_in = [(alice_token, alice_session)]"
  unfolding alice_logged_in_def exec_authenticate_sessions
  by (simp add: ttl_manager ttl_expiry alice_token_def alice_session_def new_session_def)

lemma alice_timeout: "session_timeout alice_logged_in = 1"
  unfolding alice_logged_in_def exec_authenticate_timeout by (simp add: ttl_manager)

lemma alice_2fa: "enable_2fa alice_logged_in"
proof -
  have go: "\<not> enable_2fa (init ttl_config) \<or> Some ''123456'' \<noteq> None" by simp
  from authenticate_user_success [OF go ttl_expiry] show ?thesis
    by (simp add: alice_logged_in_def Let_def log_access_attempt_def ttl_manager)
qed

lemma alice_expiry: "session_expiry alice_logged_in 1500000 = Inr 2500000"
  by (simp add: session_expiry_def timedelta_seconds_def datetime_add_def datetime_max_def
        alice_timeout)

lemma alice_tick_sessions:
  "active_sessions alice_logged_in_tick = [(alice_token, alice_session_tick)]"
proof -
  have "session_expiry (init ttl_config) 1 = Inr 1000001"
    by (simp add: session_expiry_def timedelta_seconds_def datetime_add_def datetime_max_def
          ttl_manager)
  then show ?thesis
    unfolding alice_logged_in_tick_def exec_authenticate_sessions
    by (simp add: ttl_manager alice_token_def alice_session_tick_def new_session_def)
qed

lemma alice_and_bob_sessions:
  "active_sessions alice_and_bob = [(alice_token, alice_session), (bob_token, bob_session)]"
  unfolding alice_and_bob_def exec_authenticate_sessions
  using tokens_differ
  by (simp add: alice_2fa alice_expiry alice_sessions bob_token_def [symmetric] bob_session_def
        new_session_def)

text \<open>
  With the time-out of \<open>far_config\<close> the login raises, and the manager keeps no trace
  of it.
\<close>

lemma far_login_raises:
  "authenticate_user (init far_config) ''alice'' ''pw'' (Some ''123456'') 0 zero_bytes 0 0 0
     = Inl OverflowError"
  by (rule authenticate_user_overflow [OF _ far_expiry]) simp

subsection \<open>The loops and the dictionary\<close>

text \<open>The two loops, in closed form.\<close>

lemma secure_loop_map: "secure_loop m rs acc = acc @ map (resource_entry m) rs"
  by (induction rs arbitrary: acc) (simp_all add: resource_entry_def)

lemma delete_loop_filter: "delete_loop ts d = filter (\<lambda>p. fst p \<notin> set ts) d"
proof (induction ts arbitrary: d)
  case Nil
  then show ?case by simp
next
  case (Cons t ts)
  have "AList.delete t d = filter (\<lambda>p. fst p \<noteq> t) d"
    by (induction d) auto
  with Cons show ?case by (simp add: conj_commute)
qed

lemma map_of_delete_loop:
  "map_of (delete_loop ts d) k = (if k \<in> set ts then None else map_of d k)"
  by (induction ts arbitrary: d) (simp_all add: AList.delete_conv)

text \<open>In a dictionary a key stands once, so a key names its entry.\<close>

lemma distinct_keys_filter:
  assumes "distinct (map fst d)" and "p \<in> set d"
  shows "fst p \<in> fst ` set (filter P d) \<longleftrightarrow> P p"
proof
  assume "fst p \<in> fst ` set (filter P d)"
  then obtain q where q: "q \<in> set d" "P q" "fst q = fst p" by auto
  from assms q have "q = p" by (metis eq_key_imp_eq_value prod.collapse)
  with q show "P p" by simp
next
  assume "P p"
  with assms show "fst p \<in> fst ` set (filter P d)" by auto
qed

lemma delete_loop_expired:
  assumes "distinct (map fst d)"
  shows "delete_loop (map fst (filter P d)) d = filter (\<lambda>p. \<not> P p) d"
  unfolding delete_loop_filter
proof (rule filter_cong)
  fix p assume "p \<in> set d"
  from distinct_keys_filter [OF assms this, of P]
  show "(fst p \<notin> set (map fst (filter P d))) = (\<not> P p)" by simp
qed simp

text \<open>
  Every manager that calls can reach from a fresh one keeps one entry for each key, as a
  Python dictionary does.
\<close>

lemma init_distinct: "distinct (map fst (active_sessions (init cfg)))"
  by (simp add: init_def Let_def)

lemma exec_distinct:
  assumes "distinct (map fst (active_sessions m))"
  shows "distinct (map fst (active_sessions (exec m c)))"
proof (cases c)
  case (Authenticate user password code now69 urandom now97 now98 now184)
  with assms show ?thesis
    unfolding Authenticate exec_authenticate_sessions
    by (simp add: AList.distinct_update split: sum.splits)
next
  case (Access tok res now122 now134 now184)
  with assms show ?thesis
    by (simp add: secure_online_access_def log_access_attempt_def Let_def AList.distinct_delete
          split: option.splits)
next
  case (EnableSecure rs now164)
  with assms show ?thesis by (simp add: enable_secure_access_def)
next
  case Status
  with assms show ?thesis by (simp add: get_security_status_def)
next
  case (Cleanup now199)
  with assms show ?thesis
    by (simp add: cleanup_expired_sessions_def delete_loop_filter distinct_map_filter)
qed

lemma run_distinct: "distinct (map fst (active_sessions (foldl exec (init cfg) cs)))"
proof (induction cs rule: rev_induct)
  case Nil
  show ?case by (simp add: init_distinct)
next
  case (snoc c cs)
  then show ?case by (simp add: exec_distinct)
qed

text \<open>
  No call changes a stored session: a session found under a token after a call, which
  that call did not itself store under the token, was there before the call with the same
  fields. The time-out never changes, and a granted access leaves the store as it was.
\<close>

lemma stored_sessions_never_modified:
  assumes "map_of (active_sessions (exec m c)) k = Some s" and "issues m c \<noteq> Some k"
  shows "map_of (active_sessions m) k = Some s"
proof (cases c)
  case (Authenticate user password code now69 urandom now97 now98 now184)
  with assms show ?thesis
    unfolding Authenticate exec_authenticate_sessions
    by (auto simp: AList.update_conv' split: if_splits sum.splits)
next
  case (Access tok res now122 now134 now184)
  with assms show ?thesis
    by (auto simp: secure_online_access_def log_access_attempt_def Let_def AList.delete_conv
          split: option.splits if_splits)
next
  case (EnableSecure rs now164)
  with assms show ?thesis by (simp add: enable_secure_access_def)
next
  case Status
  with assms show ?thesis by (simp add: get_security_status_def)
next
  case (Cleanup now199)
  with assms show ?thesis
    by (simp add: cleanup_expired_sessions_def map_of_delete_loop split: if_splits)
qed

lemma session_timeout_never_modified: "session_timeout (exec m c) = session_timeout m"
proof (cases c)
  case (Authenticate user password code now69 urandom now97 now98 now184)
  then show ?thesis by (simp only: exec_authenticate_timeout)
next
  case (Access tok res now122 now134 now184)
  then show ?thesis
    by (simp add: secure_online_access_def log_access_attempt_def Let_def split: option.splits)
next
  case (EnableSecure rs now164)
  then show ?thesis by (simp add: enable_secure_access_def)
next
  case Status
  then show ?thesis by (simp add: get_security_status_def)
next
  case (Cleanup now199)
  then show ?thesis by (simp add: cleanup_expired_sessions_def)
qed

lemma granted_access_keeps_sessions:
  assumes "access_granted (fst (secure_online_access m tok res now122 now134 now184))"
  shows "active_sessions (snd (secure_online_access m tok res now122 now134 now184))
      = active_sessions m"
  using assms
  by (auto simp: secure_online_access_def log_access_attempt_def Let_def
        split: option.splits if_splits)

section \<open>The claims\<close>

subsection \<open>The audit log\<close>

text \<open>
  Claim C1 says that every call of \<open>authenticate_user\<close> and of \<open>secure_online_access\<close>
  appends exactly one entry to \<open>access_logs\<close>, whatever the outcome. The code appends
  its entry in the last statement of either method, and the three refusing paths return
  before it. Evaluated on a fresh manager with the default configuration (second factor
  on) and on \<open>alice_logged_in\<close>: a login without a code returns its refusal and leaves
  the manager as it was, and an access with an unknown token and an access with an
  expired token each leave the log as long as it was.
\<close>

theorem refused_calls_skip_audit_log:
  "authenticate_user (init default_config) ''alice'' ''pw'' None 0 zero_bytes 0 0 0
     = Inr (\<lparr>auth_username = ''alice'', authenticated = False, session_token = None,
             auth_access_level = None, auth_timestamp = 0,
             requires_2fa = Some True, twofa_verified = None\<rparr>, init default_config)
   \<and> length (access_logs (exec (init default_config)
       (Authenticate ''alice'' ''pw'' None 0 zero_bytes 0 0 0)))
       = length (access_logs (init default_config))
   \<and> length (access_logs (snd (secure_online_access (init default_config)
       ''T'' ''email_system'' 0 0 0))) = length (access_logs (init default_config))
   \<and> length (access_logs (snd (secure_online_access alice_logged_in
       alice_token ''email_system'' 2000000 2000000 2000000)))
       = length (access_logs alice_logged_in)"
proof -
  have on: "enable_2fa (init default_config)"
    by (simp add: default_config_def init_def get_default_def empty_section_def)
  note login = authenticate_user_2fa_required [OF on, of "''alice''" "''pw''" 0 zero_bytes 0 0 0]
  have unknown: "length (access_logs (snd (secure_online_access (init default_config)
       ''T'' ''email_system'' 0 0 0))) = length (access_logs (init default_config))"
    by (simp add: secure_online_access_def init_def Let_def)
  have late: "length (access_logs (snd (secure_online_access alice_logged_in
       alice_token ''email_system'' 2000000 2000000 2000000)))
       = length (access_logs alice_logged_in)"
    by (simp add: secure_online_access_def alice_sessions alice_session_def)
  from login unknown late show ?thesis by simp
qed

subsection \<open>The second-factor gate\<close>

text \<open>
  Claim C3: for every user name and password, when \<open>enable_2fa\<close> is set and no
  second-factor code is supplied, \<open>authenticate_user\<close> returns, and answers
  \<open>authenticated = False\<close> with \<open>requires_2fa = True\<close>, issues no session token, and
  leaves the session store as it was; indeed it leaves the whole manager as it was.
\<close>

theorem two_factor_pending_creates_no_session:
  assumes "enable_2fa m"
  shows "\<exists>r m'. authenticate_user m user password None now69 urandom now97 now98 now184
                  = Inr (r, m')
           \<and> authenticated r = False
           \<and> requires_2fa r = Some True
           \<and> session_token r = None
           \<and> active_sessions m' = active_sessions m
           \<and> m' = m"
  by (simp add: authenticate_user_2fa_required [OF assms])

theorem two_factor_pending_creates_no_session_witness:
  "enable_2fa (init default_config)
   \<and> (\<exists>r m'. authenticate_user (init default_config) ''alice'' ''pw'' None 0 zero_bytes 0 0 0
                = Inr (r, m')
         \<and> authenticated r = False
         \<and> requires_2fa r = Some True
         \<and> session_token r = None
         \<and> active_sessions m' = [])"
proof -
  have on: "enable_2fa (init default_config)"
    by (simp add: default_config_def init_def get_default_def empty_section_def)
  have none: "active_sessions (init default_config) = []"
    by (simp add: init_def Let_def)
  from two_factor_pending_creates_no_session [OF on, of "''alice''" "''pw''" 0 zero_bytes 0 0 0]
  obtain r m' where
    "authenticate_user (init default_config) ''alice'' ''pw'' None 0 zero_bytes 0 0 0 = Inr (r, m')"
    "authenticated r = False" "requires_2fa r = Some True" "session_token r = None"
    "active_sessions m' = active_sessions (init default_config)"
    by blast
  with on none show ?thesis by simp
qed

subsection \<open>Expired sessions\<close>

text \<open>
  Claim C2 gives the refusal of an expired session the reason of an invalid token. The
  code keeps the two apart: line 129 answers \<^verbatim>\<open>Invalid session token\<close> when the token
  is unknown, line 135 answers \<^verbatim>\<open>Session expired\<close> when the session is found and the
  clock is past its expiry. One second of life, read two seconds later:
\<close>

theorem expired_reason_counterexample:
  "access_granted (fst (secure_online_access alice_logged_in alice_token ''email_system''
       2000000 2000000 2000000)) = False
   \<and> reason (fst (secure_online_access alice_logged_in alice_token ''email_system''
       2000000 2000000 2000000)) = Some ''Session expired''
   \<and> reason (fst (secure_online_access alice_logged_in alice_token ''email_system''
       2000000 2000000 2000000)) \<noteq> Some ''Invalid session token''"
  by (simp add: secure_online_access_def alice_sessions alice_session_def)

text \<open>
  Claim C2, amended: for every session whose \<open>expires_at\<close> the clock reading of line 134
  is past, \<open>secure_online_access\<close> answers \<open>access_granted = False\<close> with the reason
  \<^verbatim>\<open>Session expired\<close>, and the call deletes the session: a later lookup of the token
  finds nothing, and a later \<open>secure_online_access\<close> with the token answers
  \<^verbatim>\<open>Invalid session token\<close>.
\<close>

theorem expired_session_denied_and_evicted:
  assumes "map_of (active_sessions m) tok = Some s"
      and "now134 > expires_at s"
  shows "access_granted (fst (secure_online_access m tok res now122 now134 now184)) = False
       \<and> reason (fst (secure_online_access m tok res now122 now134 now184))
           = Some ''Session expired''
       \<and> map_of (active_sessions (snd (secure_online_access m tok res now122 now134 now184))) tok
           = None
       \<and> fst (secure_online_access (snd (secure_online_access m tok res now122 now134 now184))
                 tok res' t122 t134 t184)
           = \<lparr>resource = res', access_granted = False,
              reason = Some ''Invalid session token'', timestamp = t122,
              acc_access_level = None, acc_username = None\<rparr>"
proof -
  from assms
  have call: "secure_online_access m tok res now122 now134 now184 =
      (\<lparr>resource = res, access_granted = False, reason = Some ''Session expired'',
        timestamp = now122, acc_access_level = None, acc_username = None\<rparr>,
       m\<lparr>active_sessions := AList.delete tok (active_sessions m)\<rparr>)"
    by (simp add: secure_online_access_def)
  have gone: "map_of (AList.delete tok (active_sessions m)) tok = None"
    by (simp add: AList.delete_conv)
  from gone show ?thesis
    unfolding call by (simp add: secure_online_access_def)
qed

theorem expired_session_denied_and_evicted_witness:
  "map_of (active_sessions alice_logged_in) alice_token = Some alice_session
   \<and> 1000001 > expires_at alice_session
   \<and> reason (fst (secure_online_access alice_logged_in alice_token ''email_system''
         1000001 1000001 1000001))
       = Some ''Session expired''
   \<and> map_of (active_sessions (snd (secure_online_access alice_logged_in alice_token
         ''email_system'' 1000001 1000001 1000001))) alice_token = None
   \<and> reason (fst (secure_online_access
         (snd (secure_online_access alice_logged_in alice_token ''email_system''
                 1000001 1000001 1000001))
         alice_token ''email_system'' 1000002 1000002 1000002))
       = Some ''Invalid session token''"
proof -
  have found: "map_of (active_sessions alice_logged_in) alice_token = Some alice_session"
    by (simp add: alice_sessions)
  have late: "1000001 > expires_at alice_session"
    by (simp add: alice_session_def)
  from expired_session_denied_and_evicted [OF found late,
      of "''email_system''" 1000001 1000001 "''email_system''" 1000002 1000002 1000002]
    found late
  show ?thesis by simp
qed

subsection \<open>Construction\<close>

text \<open>
  Claim C4 says that a configuration without \<^verbatim>\<open>enable_2fa\<close> or
  \<^verbatim>\<open>session_timeout\<close> aborts the construction. The constructor reads every field with
  \<^verbatim>\<open>.get(key, default)\<close> and checks nothing: from the empty configuration it builds a
  manager with the second factor on and a time-out of 3600 seconds.
\<close>

theorem init_missing_fields_counterexample:
  "enable_2fa (init \<lparr>security_manager = None\<rparr>) = True
   \<and> session_timeout (init \<lparr>security_manager = None\<rparr>) = 3600
   \<and> enable_2fa (init \<lparr>security_manager = Some empty_section\<rparr>) = True
   \<and> session_timeout (init \<lparr>security_manager = Some empty_section\<rparr>) = 3600"
  by (simp add: init_def get_default_def empty_section_def)

text \<open>
  Claim C4, amended: construction does not abort on a missing field. When
  \<^verbatim>\<open>enable_2fa\<close> is missing (alone, or with the whole \<^verbatim>\<open>security_manager\<close> entry) the
  manager is built with \<open>enable_2fa = True\<close>, when \<^verbatim>\<open>session_timeout\<close> is missing it
  is built with \<open>session_timeout = 3600\<close>; a value that is present is taken as it is; and
  the manager starts with no session and an empty log.
\<close>

theorem init_missing_fields_defaulted:
  "((\<forall>sec. security_manager cfg = Some sec \<longrightarrow> cfg_enable_2fa sec = None)
      \<longrightarrow> enable_2fa (init cfg) = True)
   \<and> ((\<forall>sec. security_manager cfg = Some sec \<longrightarrow> cfg_session_timeout sec = None)
      \<longrightarrow> session_timeout (init cfg) = 3600)
   \<and> (\<forall>sec b. security_manager cfg = Some sec \<longrightarrow> cfg_enable_2fa sec = Some b
      \<longrightarrow> enable_2fa (init cfg) = b)
   \<and> (\<forall>sec n. security_manager cfg = Some sec \<longrightarrow> cfg_session_timeout sec = Some n
      \<longrightarrow> session_timeout (init cfg) = n)
   \<and> active_sessions (init cfg) = [] \<and> access_logs (init cfg) = []"
  by (cases "security_manager cfg")
     (auto simp: init_def get_default_def empty_section_def Let_def split: option.splits)

theorem init_missing_fields_defaulted_witness:
  "security_manager ttl_config \<noteq> None
   \<and> cfg_enable_2fa (the (security_manager ttl_config)) = None
   \<and> cfg_session_timeout (the (security_manager ttl_config)) = Some 1
   \<and> enable_2fa (init ttl_config) = True
   \<and> session_timeout (init ttl_config) = 1
   \<and> session_timeout (init default_config) = 3600"
  using init_missing_fields_defaulted [of ttl_config] init_missing_fields_defaulted [of default_config]
  by (simp add: ttl_config_def default_config_def)


subsection \<open>Successful authentication\<close>

text \<open>
  Claim C5: for every user name and password, whenever authentication goes through
  (\<open>enable_2fa\<close> is off, or a second-factor code is supplied; and the expiry of line 98
  is a \<^verbatim>\<open>datetime\<close>, without which the method raises), \<open>authenticate_user\<close> returns,
  answers \<open>authenticated = True\<close> and hands out the token it drew, which is not empty (it
  has 43 characters), and a lookup of that token in the session store right after the
  call finds a session with that user name; \<open>secure_online_access\<close> with the token does
  not take its invalid-token exit.
\<close>

theorem successful_authentication_issues_session:
  assumes "\<not> enable_2fa m \<or> code \<noteq> None"
      and "session_expiry m now98 = Inr expires"
  shows "\<exists>r m' tok. authenticate_user m user password code now69 urandom now97 now98 now184
                      = Inr (r, m')
           \<and> authenticated r
           \<and> session_token r = Some tok
           \<and> tok \<noteq> [] \<and> length tok = 43
           \<and> tok = generate_session_token urandom
           \<and> map_of (active_sessions m') tok = Some (new_session user now97 expires)
           \<and> username (new_session user now97 expires) = user
           \<and> reason (fst (secure_online_access m' tok res now122 now134 t184))
               \<noteq> Some ''Invalid session token''"
proof -
  let ?tok = "generate_session_token urandom"
  let ?r = "\<lparr>auth_username = user, authenticated = True, session_token = Some ?tok,
             auth_access_level = Some ''user'', auth_timestamp = now69, requires_2fa = None,
             twofa_verified = (if enable_2fa m then Some True else None)\<rparr>"
  let ?m' = "log_access_attempt (AuthAttempt ?r) now184
      (m\<lparr>active_sessions := AList.update ?tok (new_session user now97 expires)
                                (active_sessions m)\<rparr>)"
  have call: "authenticate_user m user password code now69 urandom now97 now98 now184
      = Inr (?r, ?m')"
    using authenticate_user_success [OF assms] by (simp add: Let_def)
  have look: "map_of (active_sessions ?m') ?tok = Some (new_session user now97 expires)"
    by (simp add: log_access_attempt_def AList.update_conv')
  then have known: "reason (fst (secure_online_access ?m' ?tok res now122 now134 t184))
      \<noteq> Some ''Invalid session token''"
    by (simp add: secure_online_access_def Let_def)
  have name: "username (new_session user now97 expires) = user"
    by (simp add: new_session_def)
  have "authenticated ?r \<and> session_token ?r = Some ?tok" by simp
  with call look known name generate_session_token_nonempty [of urandom]
    length_generate_session_token [of urandom]
  show ?thesis by blast
qed

theorem successful_authentication_issues_session_witness:
  "enable_2fa (init ttl_config)
   \<and> session_expiry (init ttl_config) 0 = Inr 1000000
   \<and> (\<exists>r m'. authenticate_user (init ttl_config) ''alice'' ''pw'' (Some ''123456'')
                 0 zero_bytes 0 0 0 = Inr (r, m')
         \<and> authenticated r
         \<and> session_token r = Some alice_token
         \<and> alice_token \<noteq> []
         \<and> map_of (active_sessions m') alice_token = Some alice_session
         \<and> username alice_session = ''alice'')"
proof -
  have code: "\<not> enable_2fa (init ttl_config) \<or> Some ''123456'' \<noteq> None" by simp
  have new: "new_session ''alice'' 0 1000000 = alice_session"
    by (simp add: new_session_def alice_session_def)
  from successful_authentication_issues_session [OF code ttl_expiry,
      of "''alice''" "''pw''" 0 zero_bytes 0 0 "''email_system''" 0 0 0]
  obtain r m' tok where
    "authenticate_user (init ttl_config) ''alice'' ''pw'' (Some ''123456'') 0 zero_bytes 0 0 0
       = Inr (r, m')"
    "authenticated r" "session_token r = Some tok" "tok \<noteq> []"
    "tok = generate_session_token zero_bytes"
    "map_of (active_sessions m') tok = Some (new_session ''alice'' 0 1000000)"
    "username (new_session ''alice'' 0 1000000) = ''alice''"
    by blast
  with new ttl_manager(1) ttl_expiry show ?thesis
    by (auto simp: alice_token_def)
qed

subsection \<open>What the password and the code decide\<close>

text \<open>
  Claim C6: verification is a no-op. Two calls of \<open>authenticate_user\<close> with the same
  user name, the same random source and the same clock readings, which differ in the
  password and in the second-factor code they supply, have the same outcome: both raise,
  or both return the same result and leave the same manager, so they agree on
  \<open>authenticated\<close>, \<open>requires_2fa\<close> and the access level. Every call that supplies a
  code, the expiry of line 98 being a \<^verbatim>\<open>datetime\<close>, returns with
  \<open>authenticated = True\<close>. When \<open>enable_2fa\<close> is off the same holds whether or not a
  code is supplied.
\<close>

theorem verification_is_noop:
  "authenticate_user m user password1 (Some code1) now69 urandom now97 now98 now184
     = authenticate_user m user password2 (Some code2) now69 urandom now97 now98 now184
   \<and> (session_expiry m now98 = Inr expires \<longrightarrow>
        (\<exists>r m'. authenticate_user m user password1 (Some code1) now69 urandom now97 now98 now184
                   = Inr (r, m')
            \<and> authenticated r \<and> requires_2fa r = None \<and> auth_access_level r = Some ''user''))
   \<and> (\<not> enable_2fa m \<longrightarrow>
        authenticate_user m user password1 opt1 now69 urandom now97 now98 now184
          = authenticate_user m user password2 opt2 now69 urandom now97 now98 now184
        \<and> (session_expiry m now98 = Inr expires \<longrightarrow>
             (\<exists>r m'. authenticate_user m user password1 opt1 now69 urandom now97 now98 now184
                        = Inr (r, m')
                 \<and> authenticated r \<and> requires_2fa r = None
                 \<and> auth_access_level r = Some ''user'')))"
proof -
  have same: "authenticate_user m user password1 opt1 now69 urandom now97 now98 now184
      = authenticate_user m user password2 opt2 now69 urandom now97 now98 now184"
    if "\<not> enable_2fa m \<or> (opt1 \<noteq> None \<and> opt2 \<noteq> None)" for opt1 opt2
  proof (cases "session_expiry m now98")
    case (Inl e)
    from that have "\<not> enable_2fa m \<or> opt1 \<noteq> None" "\<not> enable_2fa m \<or> opt2 \<noteq> None" by auto
    then show ?thesis by (simp add: authenticate_user_overflow [OF _ Inl])
  next
    case (Inr e)
    from that have "\<not> enable_2fa m \<or> opt1 \<noteq> None" "\<not> enable_2fa m \<or> opt2 \<noteq> None" by auto
    then show ?thesis by (simp add: authenticate_user_success [OF _ Inr])
  qed
  have goes: "\<exists>r m'. authenticate_user m user password1 opt now69 urandom now97 now98 now184
                   = Inr (r, m')
            \<and> authenticated r \<and> requires_2fa r = None \<and> auth_access_level r = Some ''user''"
    if "\<not> enable_2fa m \<or> opt \<noteq> None" and "session_expiry m now98 = Inr expires" for opt
    using authenticate_user_success [OF that] by (simp add: Let_def)
  have codes: "authenticate_user m user password1 (Some code1) now69 urandom now97 now98 now184
      = authenticate_user m user password2 (Some code2) now69 urandom now97 now98 now184"
    by (rule same) simp
  have code_goes: "\<exists>r m'.
        authenticate_user m user password1 (Some code1) now69 urandom now97 now98 now184
          = Inr (r, m')
        \<and> authenticated r \<and> requires_2fa r = None \<and> auth_access_level r = Some ''user''"
    if "session_expiry m now98 = Inr expires"
    using that by (intro goes) simp_all
  have off: "authenticate_user m user password1 opt1 now69 urandom now97 now98 now184
      = authenticate_user m user password2 opt2 now69 urandom now97 now98 now184"
    if "\<not> enable_2fa m"
    using that by (intro same) simp
  have off_goes: "\<exists>r m'.
        authenticate_user m user password1 opt1 now69 urandom now97 now98 now184 = Inr (r, m')
        \<and> authenticated r \<and> requires_2fa r = None \<and> auth_access_level r = Some ''user''"
    if "\<not> enable_2fa m" and "session_expiry m now98 = Inr expires"
    using that by (intro goes) simp_all
  from codes code_goes off off_goes show ?thesis by blast
qed

theorem verification_is_noop_witness:
  "\<not> enable_2fa (init no_2fa_config)
   \<and> session_expiry (init no_2fa_config) 0 = Inr 3600000000
   \<and> authenticate_user (init no_2fa_config) ''alice'' ''pw'' None 0 zero_bytes 0 0 0
       = authenticate_user (init no_2fa_config) ''alice'' ''wrong'' (Some ''000000'')
           0 zero_bytes 0 0 0
   \<and> (\<exists>r m'. authenticate_user (init no_2fa_config) ''alice'' ''pw'' None 0 zero_bytes 0 0 0
                = Inr (r, m') \<and> authenticated r)
   \<and> session_expiry (init ttl_config) 0 = Inr 1000000
   \<and> authenticate_user (init ttl_config) ''alice'' ''pw'' (Some ''123456'') 0 zero_bytes 0 0 0
       = authenticate_user (init ttl_config) ''alice'' ''wrong'' (Some ''000000'')
           0 zero_bytes 0 0 0
   \<and> (\<exists>r m'. authenticate_user (init ttl_config) ''alice'' ''pw'' (Some ''123456'')
                 0 zero_bytes 0 0 0 = Inr (r, m') \<and> authenticated r)"
proof -
  have off: "\<not> enable_2fa (init no_2fa_config)"
    by (simp add: no_2fa_config_def init_def get_default_def)
  have hour: "session_expiry (init no_2fa_config) 0 = Inr 3600000000"
    by (simp add: session_expiry_def timedelta_seconds_def datetime_add_def datetime_max_def
          no_2fa_config_def init_def get_default_def)
  note disabled =
    verification_is_noop [of "init no_2fa_config" "''alice''" "''pw''" "''000000''" 0 zero_bytes
      0 0 0 "''wrong''" "''000000''" 3600000000 None "Some ''000000''"]
  note enabled =
    verification_is_noop [of "init ttl_config" "''alice''" "''pw''" "''123456''" 0 zero_bytes
      0 0 0 "''wrong''" "''000000''" 1000000 None None]
  from off hour ttl_expiry disabled enabled show ?thesis by blast
qed

subsection \<open>Bulk marking of resources\<close>

text \<open>
  Claim C7 has every per-resource entry reflect both \<open>encryption_enabled\<close> and
  \<open>enable_2fa\<close>. An entry (lines 169 to 174) holds the name, the status
  \<^verbatim>\<open>secured\<close>, the encryption flag and a constant \<^verbatim>\<open>access_control = True\<close>; the
  second-factor flag is not in it. Two managers that differ in \<open>enable_2fa\<close> alone
  produce the same entries.
\<close>

theorem entries_without_2fa_counterexample:
  "enable_2fa (init default_config) \<noteq> enable_2fa (init no_2fa_config)
   \<and> resources (fst (enable_secure_access (init default_config) [''a'', ''b'', ''c''] 0))
       = resources (fst (enable_secure_access (init no_2fa_config) [''a'', ''b'', ''c''] 0))"
  by (simp add: enable_secure_access_def default_config_def no_2fa_config_def init_def
        get_default_def empty_section_def)

text \<open>
  Claim C7, amended: for every list of resource names, \<open>enable_secure_access\<close> returns
  \<open>resources_secured\<close> equal to the length of the list and one entry for each name, in
  order; each entry holds the name, the status \<^verbatim>\<open>secured\<close>, the current
  \<open>encryption_enabled\<close> flag and \<open>access_control = True\<close>. The current \<open>enable_2fa\<close>
  flag is reported once, at the top of the result, beside \<open>encryption_enabled\<close>. The
  call gates nothing and leaves the manager, with its sessions and its log, as it was.
\<close>

theorem enable_secure_access_echo:
  "enable_secure_access m rs now164 =
     (\<lparr>resources_secured = length rs,
       sr_encryption_enabled = encryption_enabled m,
       sr_2fa_enabled = enable_2fa m,
       sr_timestamp = now164,
       resources = map (resource_entry m) rs\<rparr>, m)
   \<and> length (resources (fst (enable_secure_access m rs now164))) = length rs
   \<and> map rs_resource (resources (fst (enable_secure_access m rs now164))) = rs
   \<and> map encryption (resources (fst (enable_secure_access m rs now164)))
       = replicate (length rs) (encryption_enabled m)
   \<and> active_sessions (snd (enable_secure_access m rs now164)) = active_sessions m
   \<and> access_logs (snd (enable_secure_access m rs now164)) = access_logs m"
proof -
  have "map rs_resource (map (resource_entry m) rs) = rs"
    by (induction rs) (simp_all add: resource_entry_def)
  moreover have "map encryption (map (resource_entry m) rs)
      = replicate (length rs) (encryption_enabled m)"
    by (induction rs) (simp_all add: resource_entry_def)
  ultimately show ?thesis
    by (simp add: enable_secure_access_def secure_loop_map)
qed


subsection \<open>The times of a session\<close>

text \<open>
  Claim C8 says that \<open>expires_at\<close> of every stored session equals its \<open>created_at\<close>
  plus the time-out, and that nothing changes the two afterwards. Lines 97 and 98 mean to
  store the moment of creation and that moment plus the time-out, but each of them reads
  the clock for itself: \<open>created_at\<close> is the first reading and \<open>expires_at\<close> is
  counted from the second. With a time-out of one second and a clock that has moved by
  one microsecond between the two readings, the session that the login stores expires
  1000001 microseconds after its creation. (That nothing changes a stored session
  afterwards holds: \<open>stored_sessions_never_modified\<close>, \<open>session_timeout_never_modified\<close>
  and \<open>granted_access_keeps_sessions\<close>.)
\<close>

theorem expiry_counted_from_second_reading:
  "authenticate_user (init ttl_config) ''alice'' ''pw'' (Some ''123456'') 0 zero_bytes 0 1 1
     = Inr (\<lparr>auth_username = ''alice'', authenticated = True, session_token = Some alice_token,
             auth_access_level = Some ''user'', auth_timestamp = 0,
             requires_2fa = None, twofa_verified = Some True\<rparr>, alice_logged_in_tick)
   \<and> map_of (active_sessions alice_logged_in_tick) alice_token = Some alice_session_tick
   \<and> timedelta_seconds (session_timeout alice_logged_in_tick) = Inr 1000000
   \<and> created_at alice_session_tick = 0
   \<and> expires_at alice_session_tick = 1000001
   \<and> expires_at alice_session_tick \<noteq> created_at alice_session_tick + 1000000"
proof -
  have go: "\<not> enable_2fa (init ttl_config) \<or> Some ''123456'' \<noteq> None" by simp
  have expiry: "session_expiry (init ttl_config) 1 = Inr 1000001"
    by (simp add: session_expiry_def timedelta_seconds_def datetime_add_def datetime_max_def
          ttl_manager)
  from authenticate_user_success [OF go expiry]
  have call: "authenticate_user (init ttl_config) ''alice'' ''pw'' (Some ''123456'')
        0 zero_bytes 0 1 1
     = Inr (\<lparr>auth_username = ''alice'', authenticated = True, session_token = Some alice_token,
             auth_access_level = Some ''user'', auth_timestamp = 0,
             requires_2fa = None, twofa_verified = Some True\<rparr>, alice_logged_in_tick)"
    by (simp add: alice_logged_in_tick_def alice_token_def Let_def ttl_manager)
  have timeout: "session_timeout alice_logged_in_tick = 1"
    unfolding alice_logged_in_tick_def exec_authenticate_timeout by (simp add: ttl_manager)
  have delta: "timedelta_seconds (session_timeout alice_logged_in_tick) = Inr 1000000"
    by (simp add: timeout timedelta_seconds_def)
  from call delta show ?thesis
    by (simp add: alice_tick_sessions alice_session_tick_def)
qed

subsection \<open>The sweep\<close>

text \<open>
  Claim C9: \<open>cleanup_expired_sessions\<close> removes exactly the sessions whose
  \<open>expires_at\<close> the clock reading of the call is past, keeps the others in their order,
  and returns the number of sessions it removed. A second sweep right after the first
  returns 0 when it reads the same time, and also when it reads another time, provided no
  session of the store has its expiry from the first reading on and before the second.
  The store is a dictionary: each token stands in it once.
\<close>

theorem cleanup_removes_expired_idempotent:
  assumes "distinct (map fst (active_sessions m))"
  shows "active_sessions (snd (cleanup_expired_sessions m t1))
           = filter (\<lambda>p. \<not> expired t1 p) (active_sessions m)
       \<and> fst (cleanup_expired_sessions m t1) = length (filter (expired t1) (active_sessions m))
       \<and> fst (cleanup_expired_sessions m t1)
           = length (active_sessions m)
             - length (active_sessions (snd (cleanup_expired_sessions m t1)))
       \<and> fst (cleanup_expired_sessions (snd (cleanup_expired_sessions m t1)) t1) = 0
       \<and> ((\<forall>p \<in> set (active_sessions m).
              \<not> (t1 \<le> expires_at (snd p) \<and> expires_at (snd p) < t2))
            \<longrightarrow> fst (cleanup_expired_sessions (snd (cleanup_expired_sessions m t1)) t2) = 0)"
proof -
  let ?d = "active_sessions m"
  have after: "active_sessions (snd (cleanup_expired_sessions m t1))
      = filter (\<lambda>p. \<not> expired t1 p) ?d"
    by (simp add: cleanup_expired_sessions_def delete_loop_expired [OF assms])
  have count: "fst (cleanup_expired_sessions m t1) = length (filter (expired t1) ?d)"
    by (simp add: cleanup_expired_sessions_def)
  have "length ?d = length (filter (expired t1) ?d) + length (filter (\<lambda>p. \<not> expired t1 p) ?d)"
    by (simp add: sum_length_filter_compl)
  with after count
  have diff: "fst (cleanup_expired_sessions m t1)
      = length ?d - length (active_sessions (snd (cleanup_expired_sessions m t1)))"
    by simp
  have again: "fst (cleanup_expired_sessions (snd (cleanup_expired_sessions m t1)) t)
      = length (filter (\<lambda>p. expired t p \<and> \<not> expired t1 p) ?d)" for t
    by (simp add: cleanup_expired_sessions_def [of "snd (cleanup_expired_sessions m t1)"] after
          conj_commute)
  have same: "fst (cleanup_expired_sessions (snd (cleanup_expired_sessions m t1)) t1) = 0"
    by (simp add: again)
  have later: "fst (cleanup_expired_sessions (snd (cleanup_expired_sessions m t1)) t2) = 0"
    if "\<forall>p \<in> set ?d. \<not> (t1 \<le> expires_at (snd p) \<and> expires_at (snd p) < t2)"
  proof -
    from that have "filter (\<lambda>p. expired t2 p \<and> \<not> expired t1 p) ?d = []"
      by (auto simp: filter_empty_conv expired_def)
    then show ?thesis by (simp add: again)
  qed
  from after count diff same later show ?thesis by simp
qed


theorem cleanup_removes_expired_idempotent_witness:
  "distinct (map fst (active_sessions alice_and_bob))
   \<and> active_sessions alice_and_bob = [(alice_token, alice_session), (bob_token, bob_session)]
   \<and> fst (cleanup_expired_sessions alice_and_bob 2000000) = 1
   \<and> active_sessions (snd (cleanup_expired_sessions alice_and_bob 2000000))
       = [(bob_token, bob_session)]
   \<and> fst (cleanup_expired_sessions (snd (cleanup_expired_sessions alice_and_bob 2000000))
         2000000) = 0
   \<and> fst (cleanup_expired_sessions (snd (cleanup_expired_sessions alice_and_bob 2000000))
         2400000) = 0"
proof -
  have keys: "distinct (map fst (active_sessions alice_and_bob))"
    by (simp add: alice_and_bob_sessions tokens_differ)
  have quiet: "\<forall>p \<in> set (active_sessions alice_and_bob).
      \<not> (2000000 \<le> expires_at (snd p) \<and> expires_at (snd p) < 2400000)"
    by (simp add: alice_and_bob_sessions alice_session_def bob_session_def)
  have past: "filter (expired 2000000) (active_sessions alice_and_bob) = [(alice_token, alice_session)]"
    "filter (\<lambda>p. \<not> expired 2000000 p) (active_sessions alice_and_bob) = [(bob_token, bob_session)]"
    by (simp_all add: alice_and_bob_sessions alice_session_def bob_session_def expired_def)
  from cleanup_removes_expired_idempotent [OF keys, of 2000000 2400000] keys quiet past
  show ?thesis by (simp add: alice_and_bob_sessions)
qed


subsection \<open>The status report\<close>

text \<open>
  Claim C10: \<open>get_security_status\<close> reports as \<open>active_sessions\<close> the size of the
  session dictionary and as \<open>total_access_logs\<close> the length of the audit log, beside the
  three configuration values. It evicts nothing: at whatever time the clock stands, the
  reported number counts the sessions whose expiry is past together with those whose
  expiry is not, and the call leaves the manager as it was.
\<close>

theorem status_counts_raw_sessions:
  "get_security_status m =
     (\<lparr>st_active_sessions = length (active_sessions m),
       total_access_logs = length (access_logs m),
       st_2fa_enabled = enable_2fa m,
       st_encryption_enabled = encryption_enabled m,
       st_session_timeout = session_timeout m\<rparr>, m)
   \<and> st_active_sessions (fst (get_security_status m))
       = length (filter (expired t) (active_sessions m))
         + length (filter (\<lambda>p. \<not> expired t p) (active_sessions m))
   \<and> snd (get_security_status m) = m"
  by (simp add: get_security_status_def sum_length_filter_compl)

end
